theory Spec2Isabelle
  imports Main
begin

section \<open>Python values, exceptions and string formatting\<close>

text \<open>
  Values that cells and option bags hold, as far as \<^verbatim>\<open>main.py\<close> inspects them:
  \<^verbatim>\<open>None\<close>, strings, integers and booleans.
\<close>

datatype pyval = PyNone | PyStr string | PyInt int | PyBool bool

text \<open>
  The exceptions \<^verbatim>\<open>main.py\<close> raises, each with its message. \<open>AttributeError\<close> and
  \<open>UnboundLocalError\<close> are the ones Python itself raises on \<^verbatim>\<open>None.workbooks\<close>
  and on reading a local that no branch assigned, \<open>AssertionError\<close> the one of a
  failed \<^verbatim>\<open>assert\<close>. \<open>XlError\<close> is a failure of the
  automation layer (a cell reference that leaves the sheet).
\<close>

datatype error =
    Exception string
  | IndexError string
  | ValueError string
  | AttributeError string
  | UnboundLocalError string
  | AssertionError
  | XlError

text \<open>\<^verbatim>\<open>"%s" % n\<close> for an integer: its decimal digits, with a leading minus sign.\<close>

definition digit :: "nat \<Rightarrow> char" where
  "digit d = char_of (48 + d)"

fun str_nat :: "nat \<Rightarrow> string" where
  "str_nat n = (if n < 10 then [digit n] else str_nat (n div 10) @ [digit (n mod 10)])"

definition str_int :: "int \<Rightarrow> string" where
  "str_int i = (if i < 0 then CHR ''-'' # str_nat (nat (- i)) else str_nat (nat i))"

text \<open>
  \<^verbatim>\<open>str.lower()\<close>, on the ASCII letters (a \<open>char\<close> is a byte; bytes outside
  \<open>A..Z\<close> are left as they are).
\<close>

definition lower_char :: "char \<Rightarrow> char" where
  "lower_char c = (let n = (of_char c :: nat) in if 65 \<le> n \<and> n \<le> 90 then char_of (n + 32) else c)"

definition lower :: "string \<Rightarrow> string" where
  "lower s = map lower_char s"

definition quoted :: "string \<Rightarrow> string" where
  "quoted s = [CHR 0x27] @ s @ [CHR 0x27]"


section \<open>Applications and workbooks\<close>

text \<open>
  An open workbook has a display name, a full path and the handle \<^verbatim>\<open>xl\<close> of the
  automation layer. An application instance holds its open workbooks. The running
  instances are a list, in the order in which \<^verbatim>\<open>for app in applications\<close> yields them.
\<close>

record workbook =
  wb_xl :: nat
  wb_name :: string
  wb_fullname :: string

record application =
  pid :: nat
  workbooks :: "workbook list"

text \<open>
  \<^verbatim>\<open>Applications.active\<close>: the first instance of the iteration, \<^verbatim>\<open>None\<close> when
  there is none.
\<close>

definition active_app :: "application list \<Rightarrow> application option" where
  "active_app apps = (case apps of [] \<Rightarrow> None | app # _ \<Rightarrow> Some app)"

text \<open>
  What \<^verbatim>\<open>Workbook.__init__\<close> binds \<^verbatim>\<open>xl\<close> to: the handle of a workbook that is
  open, the workbook that \<^verbatim>\<open>workbooks.open(fullname)\<close> opens in an instance, the one
  that \<^verbatim>\<open>workbooks.add()\<close> adds to an instance, or the first workbook of a freshly
  started \<^verbatim>\<open>Application()\<close>.
\<close>

datatype connection =
    Existing nat
  | OpenedIn application string
  | AddedTo application
  | NewApplication

text \<open>
  The loop of lines 176--180: every (app, wb) pair whose full name or name, lower-cased,
  equals the (already lower-cased) identifier.
\<close>

definition candidates :: "application list \<Rightarrow> string \<Rightarrow> (application \<times> workbook) list" where
  "candidates apps fullname =
     concat (map (\<lambda>app. map (\<lambda>wb. (app, wb))
       (filter (\<lambda>wb. lower (wb_fullname wb) = fullname \<or> lower (wb_name wb) = fullname)
          (workbooks app))) apps)"

text \<open>
  \<^verbatim>\<open>Workbook.__init__(self, fullname=None, xl=None)\<close>. \<open>isfile\<close> is
  \<^verbatim>\<open>os.path.isfile\<close>. An \<^verbatim>\<open>Application\<close> defines \<^verbatim>\<open>__len__\<close>, so
  \<^verbatim>\<open>if active.app\<close> holds when there is an instance and it has a workbook.
\<close>

definition Workbook_init ::
  "application list \<Rightarrow> (string \<Rightarrow> bool) \<Rightarrow> string option \<Rightarrow> nat option \<Rightarrow> error + connection" where
  "Workbook_init apps isfile fullname xl =
     (case xl of
        Some h \<Rightarrow> Inr (Existing h)
      | None \<Rightarrow>
         (if fullname \<noteq> None \<and> fullname \<noteq> Some [] then
            (let fullname = lower (the fullname);
                 cands = candidates apps fullname
             in if length cands = 0 then
                  (if isfile fullname then
                     (case active_app apps of
                        None \<Rightarrow> Inl (AttributeError ''NoneType object has no attribute workbooks'')
                      | Some app \<Rightarrow> Inr (OpenedIn app fullname))
                   else Inl (Exception (''Could not connect to workbook '' @ quoted fullname)))
                else if length cands > 1 then
                  Inl (Exception (''Workbook '' @ quoted fullname @
                                  '' is open in more than one Excel instance.''))
                else Inr (Existing (wb_xl (snd (cands ! 0)))))
          else
            (case active_app apps of
               None \<Rightarrow> Inr NewApplication
             | Some app \<Rightarrow>
                 if length (workbooks app) \<noteq> 0 then Inr (AddedTo app) else Inr NewApplication)))"


section \<open>Sheets, cells and ranges\<close>

datatype sheet = Sheet string

text \<open>The keyword options of a Range (\<^verbatim>\<open>self._options\<close>): a dict from names to values.\<close>

type_synonym options = "string \<rightharpoonup> pyval"

text \<open>
  A Range is a view: its sheet, the 1-based coordinates of its top-left cell, its
  numbers of rows and columns, and its options. It holds no cell values.
\<close>

record Range =
  worksheet :: sheet
  row :: int
  column :: int
  row_count :: int
  column_count :: int
  r_options :: options

text \<open>
  The state of the host application that the Range code reads. \<open>cells\<close> are the raw
  values; \<open>rowCount\<close> and \<open>columnCount\<close> give the used extent of a sheet, outside of
  which every cell is blank. \<open>active_sheet\<close> is \<^verbatim>\<open>Sheet.active()\<close>, \<open>sheets\<close>
  looks a sheet up by name or index (\<^verbatim>\<open>Sheet(sheet)\<close>), and \<open>addresses\<close> resolves an
  address token or defined name on a sheet to (row, column, rows, columns).
\<close>

record xl_state =
  cells :: "sheet \<Rightarrow> int \<Rightarrow> int \<Rightarrow> pyval"
  rowCount :: "sheet \<Rightarrow> int"
  columnCount :: "sheet \<Rightarrow> int"
  active_sheet :: "sheet option"
  sheets :: "pyval \<Rightarrow> sheet option"
  addresses :: "sheet \<Rightarrow> string \<Rightarrow> (int \<times> int \<times> int \<times> int) option"

text \<open>Sequencing of calls that may raise: the first exception ends the computation.\<close>

definition bind_err :: "error + 'a \<Rightarrow> ('a \<Rightarrow> error + 'b) \<Rightarrow> error + 'b" where
  "bind_err m f = (case m of Inl e \<Rightarrow> Inl e | Inr x \<Rightarrow> f x)"

text \<open>
  Modelled from the spec: the automation layer \<^verbatim>\<open>xlplatform\<close> is not under src/. A
  cell coordinate is a pair of 1-based positive integers (row \<open>\<ge>\<close> 1, column \<open>\<ge>\<close> 1);
  a reference outside of that is a failure of the automation layer. A Range made by
  the automation layer carries no options.
\<close>

definition region :: "sheet \<Rightarrow> int \<Rightarrow> int \<Rightarrow> int \<Rightarrow> int \<Rightarrow> Range" where
  "region sh r c nr nc =
     \<lparr>worksheet = sh, row = r, column = c, row_count = nr, column_count = nc,
      r_options = Map.empty\<rparr>"

definition cell :: "sheet \<Rightarrow> int \<Rightarrow> int \<Rightarrow> error + Range" where
  "cell sh r c = (if 1 \<le> r \<and> 1 \<le> c then Inr (region sh r c 1 1) else Inl XlError)"

text \<open>
  Modelled from the spec: \<^verbatim>\<open>xlplatform.Range.__call__\<close> with two arguments,
  \<^verbatim>\<open>self(i, j)\<close>, is the cell in the \<open>i\<close>-th row and \<open>j\<close>-th column counted from
  the top-left cell of \<open>self\<close> (1-based); with one argument, \<^verbatim>\<open>self(i)\<close>, it is the
  \<open>i\<close>-th cell of the row-major traversal of the region.
\<close>

definition call2 :: "Range \<Rightarrow> int \<Rightarrow> int \<Rightarrow> error + Range" where
  "call2 self i j = cell (worksheet self) (row self + i - 1) (column self + j - 1)"

definition call1 :: "Range \<Rightarrow> int \<Rightarrow> error + Range" where
  "call1 self i =
     cell (worksheet self) (row self + (i - 1) div column_count self)
                           (column self + (i - 1) mod column_count self)"

text \<open>
  Modelled from the spec: \<^verbatim>\<open>xlplatform.Range.__len__\<close>, the element count
  rowCount \<open>\<times>\<close> columnCount.
\<close>

definition len :: "Range \<Rightarrow> int" where
  "len self = row_count self * column_count self"

text \<open>
  Modelled from the spec: \<^verbatim>\<open>xlplatform.Sheet.range\<close> on two Ranges is the
  rectangle spanning both.
\<close>

definition worksheet_range :: "Range \<Rightarrow> Range \<Rightarrow> Range" where
  "worksheet_range a b =
     (let top = min (row a) (row b);
          left = min (column a) (column b);
          bottom = max (row a + row_count a - 1) (row b + row_count b - 1);
          right = max (column a + column_count a - 1) (column b + column_count b - 1)
      in region (worksheet a) top left (bottom - top + 1) (right - left + 1))"

text \<open>
  Modelled from the spec: the raw value of a single cell, blank (\<^verbatim>\<open>None\<close>) outside of
  the used extent of its sheet.
\<close>

definition raw_value :: "xl_state \<Rightarrow> Range \<Rightarrow> pyval" where
  "raw_value st self =
     (if row self \<le> rowCount st (worksheet self) \<and> column self \<le> columnCount st (worksheet self)
      then cells st (worksheet self) (row self) (column self) else PyNone)"

text \<open>\<^verbatim>\<open>v in [None, ""]\<close>\<close>

definition is_empty :: "pyval \<Rightarrow> bool" where
  "is_empty v = (v = PyNone \<or> v = PyStr [])"

text \<open>
  Modelled from the spec: \<^verbatim>\<open>xlplatform.Range.end\<close>, the jump to the last
  contiguous non-empty cell: the scan moves on along the axis for as long as the next
  cell is not empty.
\<close>

function end_down :: "xl_state \<Rightarrow> sheet \<Rightarrow> int \<Rightarrow> int \<Rightarrow> int" where
  "end_down st sh r c =
     (if \<not> is_empty (raw_value st (region sh (r + 1) c 1 1)) then end_down st sh (r + 1) c else r)"
  by pat_completeness auto
termination
  by (relation "measure (\<lambda>(st, sh, r, c). nat (rowCount st sh - r))")
     (auto simp: raw_value_def region_def is_empty_def split: if_splits)

function end_right :: "xl_state \<Rightarrow> sheet \<Rightarrow> int \<Rightarrow> int \<Rightarrow> int" where
  "end_right st sh r c =
     (if \<not> is_empty (raw_value st (region sh r (c + 1) 1 1)) then end_right st sh r (c + 1) else c)"
  by pat_completeness auto
termination
  by (relation "measure (\<lambda>(st, sh, r, c). nat (columnCount st sh - c))")
     (auto simp: raw_value_def region_def is_empty_def split: if_splits)

datatype direction = Down | Right

definition range_end :: "xl_state \<Rightarrow> Range \<Rightarrow> direction \<Rightarrow> error + Range" where
  "range_end st self d =
     (case d of
        Down \<Rightarrow> cell (worksheet self) (end_down st (worksheet self) (row self) (column self)) (column self)
      | Right \<Rightarrow> cell (worksheet self) (row self) (end_right st (worksheet self) (row self) (column self)))"


section \<open>Constructing a Range\<close>

text \<open>The positional arguments that \<^verbatim>\<open>Range(*args)\<close> tells apart by their type.\<close>

datatype arg = ARange Range | AStr string | ATuple "int list" | AInt int | ASheet sheet

definition is_Range :: "arg \<Rightarrow> bool" where
  "is_Range a = (case a of ARange _ \<Rightarrow> True | _ \<Rightarrow> False)"

definition is_string :: "arg \<Rightarrow> bool" where
  "is_string a = (case a of AStr _ \<Rightarrow> True | _ \<Rightarrow> False)"

definition is_tuple :: "arg \<Rightarrow> bool" where
  "is_tuple a = (case a of ATuple _ \<Rightarrow> True | _ \<Rightarrow> False)"

text \<open>\<^verbatim>\<open>0 in s\<close> for a tuple argument \<open>s\<close>.\<close>

definition zero_in :: "arg \<Rightarrow> bool" where
  "zero_in s = (case s of ATuple t \<Rightarrow> 0 \<in> set t | _ \<Rightarrow> False)"

text \<open>
  \<^verbatim>\<open>Sheet.active()\<close> reads \<^verbatim>\<open>applications.active.active_sheet\<close>, which raises
  when no application runs. \<^verbatim>\<open>Sheet(sheet)\<close> asks the active workbook for the
  sheet of that name or index.
\<close>

definition Sheet_active :: "xl_state \<Rightarrow> error + sheet" where
  "Sheet_active st =
     (case active_sheet st of
        None \<Rightarrow> Inl (AttributeError ''NoneType object has no attribute active_sheet'')
      | Some sh \<Rightarrow> Inr sh)"

definition Sheet_init :: "xl_state \<Rightarrow> arg \<Rightarrow> error + sheet" where
  "Sheet_init st a =
     (case (case a of AStr n \<Rightarrow> sheets st (PyStr n) | AInt i \<Rightarrow> sheets st (PyInt i) | _ \<Rightarrow> None) of
        None \<Rightarrow> Inl XlError
      | Some sh \<Rightarrow> Inr sh)"

text \<open>
  Modelled from the spec: \<^verbatim>\<open>xlplatform.Sheet.range\<close> on an address token or on one
  or two (row, column) pairs, 1-based, read as a single cell or as opposite corners of a
  rectangle.
\<close>

definition address_range :: "xl_state \<Rightarrow> sheet \<Rightarrow> string \<Rightarrow> error + Range" where
  "address_range st sh a =
     (case addresses st sh a of
        None \<Rightarrow> Inl XlError
      | Some (r, c, nr, nc) \<Rightarrow> Inr (region sh r c nr nc))"

fun sheet_range :: "xl_state \<Rightarrow> sheet \<Rightarrow> arg list \<Rightarrow> error + Range" where
  "sheet_range st sh [AStr a] = address_range st sh a"
| "sheet_range st sh [ATuple [r, c]] = cell sh r c"
| "sheet_range st sh [ATuple [r1, c1], ATuple [r2, c2]] =
     bind_err (cell sh r1 c1) (\<lambda>a. bind_err (cell sh r2 c2) (\<lambda>b. Inr (worksheet_range a b)))"
| "sheet_range st sh spec = Inl XlError"

text \<open>
  Lines 483--491 of \<^verbatim>\<open>Range.__init__\<close>: the trailing arguments that denote the
  cells. When the last argument is neither a tuple nor a string, \<^verbatim>\<open>spec\<close> stays
  unbound and line 492 raises.
\<close>

definition spec_of :: "arg list \<Rightarrow> error + arg list" where
  "spec_of args =
     (if is_tuple (last args) then
        (let spec = (if length args > 1 \<and> is_tuple (args ! (length args - 2))
                     then [args ! (length args - 2), last args] else [last args])
         in if \<exists>s \<in> set spec. zero_in s
            then Inl (IndexError
              ''Attempted to access 0-based Range. xlwings/Excel Ranges are 1-based.'')
            else Inr spec)
      else if is_string (last args) then Inr [last args]
      else Inl (UnboundLocalError ''spec''))"

text \<open>
  \<^verbatim>\<open>Range.__init__(self, *args, xl=None, **options)\<close>. A handle \<open>xl\<close> of the
  automation layer is the region it denotes.
\<close>

definition Range_init :: "xl_state \<Rightarrow> arg list \<Rightarrow> Range option \<Rightarrow> options \<Rightarrow> error + Range" where
  "Range_init st args xl options =
     bind_err
       (case xl of
          Some h \<Rightarrow> Inr h
        | None \<Rightarrow>
            (if length args = 2 \<and> is_Range (args ! 0) \<and> is_Range (args ! 1) then
               (case (args ! 0, args ! 1) of
                  (ARange a, ARange b) \<Rightarrow> Inr (worksheet_range a b)
                | _ \<Rightarrow> Inl XlError)
             else if length args = 1 \<and> is_string (args ! 0) then
               (case args ! 0 of
                  AStr a \<Rightarrow> bind_err (Sheet_active st) (\<lambda>sh. address_range st sh a)
                | _ \<Rightarrow> Inl XlError)
             else if 0 < length args \<and> length args \<le> 3 then
               bind_err (spec_of args) (\<lambda>spec.
                 let residual_args = take (length args - length spec) args in
                 bind_err
                   (if residual_args \<noteq> [] then
                      (if length residual_args > 1 then Inl (ValueError ''Invalid arguments'')
                       else (case residual_args ! 0 of
                               ASheet sh \<Rightarrow> Inr sh
                             | a \<Rightarrow> Sheet_init st a))
                    else Sheet_active st)
                   (\<lambda>sh. sheet_range st sh spec))
             else Inl (ValueError ''Invalid arguments'')))
       (\<lambda>h. Inr (h\<lparr>r_options := options\<rparr>))"

text \<open>
  \<^verbatim>\<open>Range.options(self, convert=None, **options)\<close>, and the call
  \<^verbatim>\<open>self.options(**d)\<close> with a dict \<open>d\<close>: its entry \<^verbatim>\<open>convert\<close>, if any, binds the
  parameter \<^verbatim>\<open>convert\<close>, and the other entries are the keyword options.
\<close>

definition Range_options :: "xl_state \<Rightarrow> Range \<Rightarrow> pyval \<Rightarrow> options \<Rightarrow> error + Range" where
  "Range_options st self convert options =
     Range_init st [] (Some self) (options(''convert'' \<mapsto> convert))"

definition options_from :: "xl_state \<Rightarrow> Range \<Rightarrow> options \<Rightarrow> error + Range" where
  "options_from st self d =
     Range_options st self (case d ''convert'' of None \<Rightarrow> PyNone | Some v \<Rightarrow> v)
       (d(''convert'' := None))"


section \<open>Expanding a Range: table, vertical, horizontal\<close>

definition table :: "xl_state \<Rightarrow> Range \<Rightarrow> error + Range" where
  "table st self =
     bind_err (call2 self 1 1) (\<lambda>origin.
     bind_err
       (bind_err (call2 origin 2 1) (\<lambda>below.
          if is_empty (raw_value st below) then Inr origin
          else bind_err (call2 origin 3 1) (\<lambda>below2.
            if is_empty (raw_value st below2) then call2 origin 2 1
            else bind_err (call2 origin 2 1) (\<lambda>c. range_end st c Down))))
       (\<lambda>bottom_left.
     bind_err
       (bind_err (call2 origin 1 2) (\<lambda>beside.
          if is_empty (raw_value st beside) then Inr origin
          else bind_err (call2 origin 1 3) (\<lambda>beside2.
            if is_empty (raw_value st beside2) then call2 origin 1 2
            else bind_err (call2 origin 1 2) (\<lambda>c. range_end st c Right))))
       (\<lambda>top_right.
     Range_init st [ARange top_right, ARange bottom_left] None Map.empty)))"

definition vertical :: "xl_state \<Rightarrow> Range \<Rightarrow> error + Range" where
  "vertical st self =
     bind_err (call2 self 2 1) (\<lambda>below.
       if is_empty (raw_value st below) then
         bind_err (call2 self 1 1) (\<lambda>a.
         bind_err (call2 self 1 (column_count self)) (\<lambda>b.
           Range_init st [ARange a, ARange b] None Map.empty))
       else bind_err (call2 self 3 1) (\<lambda>below2.
         if is_empty (raw_value st below2) then
           bind_err (call2 self 1 1) (\<lambda>a.
           bind_err (call2 self 2 (column_count self)) (\<lambda>b.
             Range_init st [ARange a, ARange b] None Map.empty))
         else
           bind_err (call2 self 2 1) (\<lambda>c.
           bind_err (range_end st c Down) (\<lambda>e.
             let end_row = row e - row self + 1 in
             bind_err (call2 self 1 1) (\<lambda>a.
             bind_err (call2 self end_row (column_count self)) (\<lambda>b.
               Range_init st [ARange a, ARange b] None Map.empty))))))"

definition horizontal :: "xl_state \<Rightarrow> Range \<Rightarrow> error + Range" where
  "horizontal st self =
     bind_err (call2 self 1 2) (\<lambda>beside.
       if is_empty (raw_value st beside) then
         bind_err (call2 self 1 1) (\<lambda>a.
         bind_err (call2 self (row_count self) 1) (\<lambda>b.
           Range_init st [ARange a, ARange b] None Map.empty))
       else bind_err (call2 self 1 3) (\<lambda>beside2.
         if is_empty (raw_value st beside2) then
           bind_err (call2 self 1 1) (\<lambda>a.
           bind_err (call2 self (row_count self) 2) (\<lambda>b.
             Range_init st [ARange a, ARange b] None Map.empty))
         else
           bind_err (call2 self 1 2) (\<lambda>c.
           bind_err (range_end st c Right) (\<lambda>e.
             let end_column = column e - column self + 1 in
             bind_err (call2 self 1 1) (\<lambda>a.
             bind_err (call2 self (row_count self) end_column) (\<lambda>b.
               Range_init st [ARange a, ARange b] None Map.empty))))))"


section \<open>Indexing and slicing a Range\<close>

datatype slice = Slice (start: "int option") (stop: "int option") (step: "int option")

datatype index = Idx int | Sl slice

datatype key = KTuple index index | KSlice slice | KInt int

definition out_of_range :: "string \<Rightarrow> int \<Rightarrow> int \<Rightarrow> string" where
  "out_of_range what i l =
     what @ str_int i @ '' out of range ('' @ str_int l @ '' elements).''"

text \<open>
  Lines 704--710 for the rows and 711--717 for the columns are one block, here taken
  once: the first and last 0-based index on an axis of \<open>n\<close> lines.
\<close>

definition bounds :: "int \<Rightarrow> index \<Rightarrow> error + int \<times> int" where
  "bounds n k =
     (case k of
        Sl s \<Rightarrow>
          if step s \<noteq> None then Inl (ValueError ''Slice steps not supported.'')
          else Inr (case start s of None \<Rightarrow> 0 | Some a \<Rightarrow> a,
                    case stop s of None \<Rightarrow> n - 1 | Some b \<Rightarrow> b - 1)
      | Idx i \<Rightarrow> Inr (i, i))"

fun getitem :: "xl_state \<Rightarrow> Range \<Rightarrow> key \<Rightarrow> error + Range" where
  "getitem st self (KTuple rowk colk) =
     bind_err (bounds (row_count self) rowk) (\<lambda>(row1, row2).
     bind_err (bounds (column_count self) colk) (\<lambda>(col1, col2).
       if col1 = col2 \<and> row1 = row2 then call2 self (row1 + 1) (col1 + 1)
       else
         bind_err (call2 self (row1 + 1) (col1 + 1)) (\<lambda>a.
         bind_err (call2 self (row2 + 1) (col2 + 1)) (\<lambda>b.
           Inr (worksheet_range a b)))))"
| "getitem st self (KSlice k) =
     (if step k \<noteq> None then Inl (ValueError ''Slice steps not supported.'')
      else
        (let l = len self in
         bind_err
           (case start k of
              None \<Rightarrow> Inr 0
            | Some i \<Rightarrow>
                if i \<ge> l then Inl (IndexError (out_of_range ''Start index '' i l))
                else if i < 0 then
                  (if i < - l then Inl (IndexError (out_of_range ''Start index '' i l))
                   else Inr (l + i))
                else Inr i)
           (\<lambda>start.
         bind_err
           (case stop k of
              None \<Rightarrow> Inr l
            | Some j \<Rightarrow>
                if j > l then Inl (IndexError (out_of_range ''Stop index '' j l))
                else if j < 0 then
                  (if j \<le> - l then Inl (IndexError (out_of_range ''Stop index '' j l))
                   else Inr (l + j))
                else Inr j)
           (\<lambda>stop.
         bind_err (call1 self (start + 1)) (\<lambda>a.
         bind_err (call1 self stop) (\<lambda>b.
           Range_init st [ARange a, ARange b] None Map.empty))))))"
| "getitem st self (KInt k) =
     (let l = len self in
      if k \<ge> l then Inl (IndexError (out_of_range ''Index '' k l))
      else if k < 0 then
        (if k < - l then Inl (IndexError (out_of_range ''Index '' k l))
         else call1 self (l + k + 1))
      else call1 self (k + 1))"


section \<open>Resizing and offsetting a Range\<close>

definition resize :: "xl_state \<Rightarrow> Range \<Rightarrow> int option \<Rightarrow> int option \<Rightarrow> error + Range" where
  "resize st self row_size column_size =
     bind_err
       (case row_size of
          Some n \<Rightarrow> if n > 0 then Inr n else Inl AssertionError
        | None \<Rightarrow> Inr (row_count self))
       (\<lambda>row_size.
     bind_err
       (case column_size of
          Some n \<Rightarrow> if n > 0 then Inr n else Inl AssertionError
        | None \<Rightarrow> Inr (column_count self))
       (\<lambda>column_size.
     bind_err (call2 self 1 1) (\<lambda>a.
     bind_err (call2 self row_size column_size) (\<lambda>b.
     bind_err (Range_init st [ARange a, ARange b] None Map.empty) (\<lambda>r.
       options_from st r (r_options self))))))"

definition offset :: "xl_state \<Rightarrow> Range \<Rightarrow> int \<Rightarrow> int \<Rightarrow> error + Range" where
  "offset st self row_offset column_offset =
     bind_err (call2 self (row_offset + 1) (column_offset + 1)) (\<lambda>a.
     bind_err (call2 self (row_offset + row_count self) (column_offset + column_count self)) (\<lambda>b.
     bind_err (Range_init st [ARange a, ARange b] None Map.empty) (\<lambda>r.
       options_from st r (r_options self))))"


section \<open>Well-formed ranges and example sheets\<close>

text \<open>
  The Range invariant of the data model: coordinates are 1-based and a region has at
  least one row and one column.
\<close>

definition valid :: "Range \<Rightarrow> bool" where
  "valid self = (1 \<le> row self \<and> 1 \<le> column self \<and> 1 \<le> row_count self \<and> 1 \<le> column_count self)"

text \<open>
  A host state with one sheet, its cell values given row by row, and no defined names.
\<close>

definition sheet1 :: sheet where
  "sheet1 = Sheet ''Sheet1''"

definition grid :: "pyval list list \<Rightarrow> sheet \<Rightarrow> int \<Rightarrow> int \<Rightarrow> pyval" where
  "grid rows sh r c =
     (if 1 \<le> r \<and> r \<le> int (length rows) \<and> 1 \<le> c \<and> c \<le> int (length (rows ! nat (r - 1)))
      then rows ! nat (r - 1) ! nat (c - 1) else PyNone)"

definition book_state :: "pyval list list \<Rightarrow> xl_state" where
  "book_state rows =
     \<lparr>cells = grid rows,
      rowCount = (\<lambda>sh. int (length rows)),
      columnCount = (\<lambda>sh. int (foldr max (map length rows) 0)),
      active_sheet = Some sheet1,
      sheets = (\<lambda>v. if v = PyStr ''Sheet1'' \<or> v = PyInt 1 then Some sheet1 else None),
      addresses = (\<lambda>sh a. None)\<rparr>"


text \<open>Whether an index of a 2-D key is a slice with an explicit step.\<close>

definition has_step :: "index \<Rightarrow> bool" where
  "has_step k = (case k of Sl s \<Rightarrow> step s \<noteq> None | Idx i \<Rightarrow> False)"


text \<open>A list of (row, column) pairs as the tuple arguments of a Range call.\<close>

definition tuple_args :: "(int \<times> int) list \<Rightarrow> arg list" where
  "tuple_args ts = map (\<lambda>(r, c). ATuple [r, c]) ts"


section \<open>The directional growth of the specification\<close>

declare end_down.simps [simp del] end_right.simps [simp del]

text \<open>Whether the cell at a coordinate of a sheet is empty.\<close>

definition empty_at :: "xl_state \<Rightarrow> sheet \<Rightarrow> int \<Rightarrow> int \<Rightarrow> bool" where
  "empty_at st sh r c = is_empty (raw_value st (region sh r c 1 1))"

text \<open>
  The growth rule in the words of the specification, along one axis: \<open>a\<close> is the
  position of the anchor on the axis, \<open>blank p\<close> tells whether the cell at position
  \<open>p\<close> is empty, and \<open>scan p\<close> is the position that the jump to the last contiguous
  non-empty cell reaches from \<open>p\<close>. The block has length 1 when the adjacent cell is
  empty, length 2 when the cell two positions out is, and otherwise reaches to the far
  edge that the scan from the one-position-out cell finds.
\<close>

definition growth :: "(int \<Rightarrow> bool) \<Rightarrow> (int \<Rightarrow> int) \<Rightarrow> int \<Rightarrow> int" where
  "growth blank scan a =
     (if blank (a + 1) then 1 else if blank (a + 2) then 2 else scan (a + 1) - a + 1)"

text \<open>A sheet whose first \<open>n\<close> rows and \<open>m\<close> columns hold the number 1.\<close>

definition block :: "nat \<Rightarrow> nat \<Rightarrow> pyval list list" where
  "block n m = replicate n (replicate m (PyInt 1))"


section \<open>Normalised indices\<close>

text \<open>Negative-index normalisation against \<open>l\<close> elements: a negative index counts from the end.\<close>

definition normalize :: "int \<Rightarrow> int \<Rightarrow> int" where
  "normalize l i = (if i < 0 then l + i else i)"


section \<open>Example ranges and instances\<close>

text \<open>A Range with a given options bag.\<close>

definition with_options :: "Range \<Rightarrow> options \<Rightarrow> Range" where
  "with_options r d = r\<lparr>r_options := d\<rparr>"

text \<open>
  Two running instances that each hold an unsaved workbook named Book1, and a third
  instance with a saved workbook of that name.
\<close>

definition two_instances :: "application list" where
  "two_instances =
     [\<lparr>pid = 1, workbooks = [\<lparr>wb_xl = 10, wb_name = ''Book1'', wb_fullname = ''Book1''\<rparr>]\<rparr>,
      \<lparr>pid = 2, workbooks = [\<lparr>wb_xl = 20, wb_name = ''Book1'', wb_fullname = ''Book1''\<rparr>]\<rparr>]"

definition three_instances :: "application list" where
  "three_instances =
     two_instances @
     [\<lparr>pid = 3, workbooks = [\<lparr>wb_xl = 30, wb_name = ''book1'', wb_fullname = ''C:/x/book1''\<rparr>]\<rparr>]"


section \<open>Basic facts about cells, spans and sequencing\<close>

lemma region_sel [simp]:
  "worksheet (region sh r c nr nc) = sh" "row (region sh r c nr nc) = r"
  "column (region sh r c nr nc) = c" "row_count (region sh r c nr nc) = nr"
  "column_count (region sh r c nr nc) = nc" "r_options (region sh r c nr nc) = Map.empty"
  by (simp_all add: region_def)

lemma bind_Inr [simp]: "bind_err (Inr x) f = f x"
  by (simp add: bind_err_def)

lemma bind_Inl [simp]: "bind_err (Inl e) f = Inl e"
  by (simp add: bind_err_def)

lemma bind_err_InrE:
  assumes "bind_err m f = Inr y"
  obtains x where "m = Inr x" and "f x = Inr y"
  using assms by (cases m) (auto simp: bind_err_def)

lemma cell_ok: "1 \<le> r \<Longrightarrow> 1 \<le> c \<Longrightarrow> cell sh r c = Inr (region sh r c 1 1)"
  by (simp add: cell_def)

lemma call1_valid:
  assumes "valid self" "1 \<le> i"
  shows "call1 self i = Inr (region (worksheet self) (row self + (i - 1) div column_count self)
                           (column self + (i - 1) mod column_count self) 1 1)"
proof -
  have cc: "0 < column_count self" and r: "1 \<le> row self" and c: "1 \<le> column self"
    using assms by (simp_all add: valid_def)
  have "0 \<le> (i - 1) div column_count self"
    using assms cc by (simp add: pos_imp_zdiv_nonneg_iff)
  then have R: "1 \<le> row self + (i - 1) div column_count self" using r by linarith
  have "0 \<le> (i - 1) mod column_count self" using cc by (rule pos_mod_sign)
  then have C: "1 \<le> column self + (i - 1) mod column_count self" using c by linarith
  show ?thesis unfolding call1_def by (rule cell_ok [OF R C])
qed

lemma call2_ok:
  "1 \<le> row self + i - 1 \<Longrightarrow> 1 \<le> column self + j - 1 \<Longrightarrow>
   call2 self i j = Inr (region (worksheet self) (row self + i - 1) (column self + j - 1) 1 1)"
  by (simp add: call2_def cell_def)

lemma Range_span:
  "Range_init st [ARange a, ARange b] None Map.empty = Inr (worksheet_range a b)"
  by (simp add: Range_init_def is_Range_def bind_err_def worksheet_range_def Let_def region_def)

lemma span_cells:
  "worksheet_range (region sh r1 c1 1 1) (region sh' r2 c2 1 1) =
     region sh (min r1 r2) (min c1 c2) (max r1 r2 - min r1 r2 + 1) (max c1 c2 - min c1 c2 + 1)"
  by (simp add: worksheet_range_def Let_def)

lemma one_le_mult: "1 \<le> a \<Longrightarrow> 1 \<le> b \<Longrightarrow> 1 \<le> a * (b::int)"
  using mult_mono [of 1 a 1 b] by simp

lemma len_span_cells: "1 \<le> len (worksheet_range (region sh r1 c1 1 1) (region sh' r2 c2 1 1))"
  unfolding span_cells len_def region_sel by (rule one_le_mult) simp_all


section \<open>Document resolution\<close>

lemma Workbook_init_one_match:
  assumes "ident \<noteq> []" and "candidates apps (lower ident) = [(app, wb)]"
  shows "Workbook_init apps isfile (Some ident) None = Inr (Existing (wb_xl wb))"
  using assms by (auto simp add: Workbook_init_def Let_def)

lemma Workbook_init_ambiguous:
  assumes "ident \<noteq> []" and "1 < length (candidates apps (lower ident))"
  shows "Workbook_init apps isfile (Some ident) None =
           Inl (Exception (''Workbook '' @ quoted (lower ident) @
                           '' is open in more than one Excel instance.''))"
  using assms by (auto simp add: Workbook_init_def Let_def)

lemma Workbook_init_not_found:
  assumes "ident \<noteq> []" and "candidates apps (lower ident) = []" and "\<not> isfile (lower ident)"
  shows "Workbook_init apps isfile (Some ident) None =
           Inl (Exception (''Could not connect to workbook '' @ quoted (lower ident)))"
  using assms by (auto simp add: Workbook_init_def Let_def)

lemma Workbook_init_opens_file:
  assumes "ident \<noteq> []" and "candidates apps (lower ident) = []" and "isfile (lower ident)"
    and "apps = app # rest"
  shows "Workbook_init apps isfile (Some ident) None = Inr (OpenedIn app (lower ident))"
  using assms by (simp add: Workbook_init_def Let_def active_app_def)


section \<open>Linear element access\<close>

text \<open>
  C4. For every Range and every \<open>i\<close> with \<open>0 \<le> i < len\<close>, the linear accesses
  \<open>at(i)\<close> and \<open>at(-(len - i))\<close> are the same call \<^verbatim>\<open>self(i + 1)\<close> and so denote the
  same cell; on a well-formed Range that is the cell \<open>i\<close> steps into the row-major
  traversal. Every index with \<open>k \<ge> len\<close> or \<open>k < -len\<close> raises \<open>IndexError\<close> with a
  message that names the index and the element count.
\<close>

theorem getitem_linear_index:
  "(0 \<le> i \<and> i < len self \<longrightarrow>
      getitem st self (KInt i) = getitem st self (KInt (- (len self - i))) \<and>
      getitem st self (KInt i) = call1 self (i + 1)) \<and>
   (0 \<le> i \<and> i < len self \<and> valid self \<longrightarrow>
      getitem st self (KInt i) =
        Inr (region (worksheet self) (row self + i div column_count self)
               (column self + i mod column_count self) 1 1)) \<and>
   (k \<ge> len self \<or> k < - len self \<longrightarrow>
      getitem st self (KInt k) =
        Inl (IndexError (''Index '' @ str_int k @ '' out of range ('' @ str_int (len self) @
                         '' elements).'')))"
proof -
  have same: "getitem st self (KInt i) = getitem st self (KInt (- (len self - i))) \<and>
      getitem st self (KInt i) = call1 self (i + 1)" if "0 \<le> i \<and> i < len self"
    using that by (simp add: Let_def)
  have pos: "getitem st self (KInt i) =
        Inr (region (worksheet self) (row self + i div column_count self)
               (column self + i mod column_count self) 1 1)"
    if a: "0 \<le> i \<and> i < len self \<and> valid self"
  proof -
    have "getitem st self (KInt i) = call1 self (i + 1)" using a by (simp add: Let_def)
    also have "\<dots> = Inr (region (worksheet self) (row self + (i + 1 - 1) div column_count self)
               (column self + (i + 1 - 1) mod column_count self) 1 1)"
      using a by (intro call1_valid) simp_all
    finally show ?thesis by simp
  qed
  have out: "getitem st self (KInt k) =
        Inl (IndexError (''Index '' @ str_int k @ '' out of range ('' @ str_int (len self) @
                         '' elements).''))" if "k \<ge> len self \<or> k < - len self"
    using that by (auto simp add: Let_def out_of_range_def)
  from same pos out show ?thesis by blast
qed

theorem getitem_linear_index_witness:
  "getitem (book_state []) (region sheet1 1 1 2 3) (KInt 4) =
     getitem (book_state []) (region sheet1 1 1 2 3) (KInt (- 2)) \<and>
   getitem (book_state []) (region sheet1 1 1 2 3) (KInt 4) = Inr (region sheet1 2 2 1 1) \<and>
   getitem (book_state []) (region sheet1 1 1 2 3) (KInt 6) =
     Inl (IndexError ''Index 6 out of range (6 elements).'') \<and>
   getitem (book_state []) (region sheet1 1 1 2 3) (KInt (- 7)) =
     Inl (IndexError ''Index -7 out of range (6 elements).'')"
proof -
  let ?r = "region sheet1 1 1 2 3"
  let ?st = "book_state []"
  have l: "len ?r = 6" by (simp add: len_def region_def)
  have v: "valid ?r" by (simp add: valid_def region_def)
  have f: "worksheet ?r = sheet1" "row ?r = 1" "column ?r = 1" "column_count ?r = 3"
    by (simp_all add: region_def)
  have s6: "str_int 6 = ''6''" by code_simp
  have s7: "str_int (- 7) = ''-7''" by code_simp
  have h: "0 \<le> (4::int) \<and> 4 < len ?r" "len ?r \<le> 6 \<or> 6 < - len ?r" "len ?r \<le> - 7 \<or> - 7 < - len ?r"
    by (simp_all add: l)
  note T = getitem_linear_index [of 4 ?r ?st 6]
  note U = getitem_linear_index [of 4 ?r ?st "- 7"]
  have c1: "getitem ?st ?r (KInt 4) = getitem ?st ?r (KInt (- (len ?r - 4)))"
    using T h(1) by blast
  have c2: "getitem ?st ?r (KInt 4) =
      Inr (region (worksheet ?r) (row ?r + 4 div column_count ?r)
             (column ?r + 4 mod column_count ?r) 1 1)"
    using T h(1) v by blast
  have c3: "getitem ?st ?r (KInt 6) =
      Inl (IndexError (''Index '' @ str_int 6 @ '' out of range ('' @ str_int (len ?r) @
                       '' elements).''))"
    using T h(2) by blast
  have c4: "getitem ?st ?r (KInt (- 7)) =
      Inl (IndexError (''Index '' @ str_int (- 7) @ '' out of range ('' @ str_int (len ?r) @
                       '' elements).''))"
    using U h(3) by blast
  show ?thesis
    using c1 c2 c3 c4 by (simp del: getitem.simps add: l f s6 s7)
qed


section \<open>Slice steps\<close>

lemma cell_not_ValueError: "cell sh r c \<noteq> Inl (ValueError m)"
  by (simp add: cell_def)

lemma call1_not_ValueError: "call1 self i \<noteq> Inl (ValueError m)"
  by (simp add: call1_def cell_not_ValueError)

lemma call2_not_ValueError: "call2 self i j \<noteq> Inl (ValueError m)"
  by (simp add: call2_def cell_not_ValueError)

lemma Range_init_two:
  "Range_init st [ARange a, ARange b] None opts = Inr ((worksheet_range a b)\<lparr>r_options := opts\<rparr>)"
  by (simp add: Range_init_def is_Range_def bind_err_def)

lemma bind_err_not_ValueError:
  assumes "m \<noteq> Inl (ValueError msg)" and "\<And>x. f x \<noteq> Inl (ValueError msg)"
  shows "bind_err m f \<noteq> Inl (ValueError msg)"
  using assms by (cases m) (auto simp: bind_err_def)

lemma bounds_step: "bounds n k = Inl e \<longleftrightarrow> has_step k \<and> e = ValueError ''Slice steps not supported.''"
  by (auto simp: bounds_def has_step_def split: index.splits)

text \<open>
  C10. A slice key is rejected with \<open>ValueError\<close> "Slice steps not supported." exactly
  when it has an explicit step, whatever its value (also 1): on the linear form when the
  slice has a step, on the 2-D form when the row slice or the column slice has one.
  A slice whose step is omitted never raises that error.
\<close>

theorem slice_step_rejected:
  "(getitem st self (KSlice k) = Inl (ValueError ''Slice steps not supported.'') \<longleftrightarrow> step k \<noteq> None) \<and>
   (getitem st self (KTuple rowk colk) = Inl (ValueError ''Slice steps not supported.'')
      \<longleftrightarrow> has_step rowk \<or> has_step colk)"
proof
  show "getitem st self (KSlice k) = Inl (ValueError ''Slice steps not supported.'') \<longleftrightarrow> step k \<noteq> None"
  proof (cases "step k = None")
    case True
    have "getitem st self (KSlice k) \<noteq> Inl (ValueError ''Slice steps not supported.'')"
      using True
      apply (simp add: Let_def split del: if_split)
      apply (rule bind_err_not_ValueError)
       apply (simp split: option.splits)
      apply (rule bind_err_not_ValueError)
       apply (simp split: option.splits)
      apply (rule bind_err_not_ValueError)
       apply (rule call1_not_ValueError)
      apply (rule bind_err_not_ValueError)
       apply (rule call1_not_ValueError)
      apply (simp add: Range_init_two)
      done
    with True show ?thesis by simp
  next
    case False
    then show ?thesis by auto
  qed
next
  show "getitem st self (KTuple rowk colk) = Inl (ValueError ''Slice steps not supported.'')
      \<longleftrightarrow> has_step rowk \<or> has_step colk"
  proof (cases "has_step rowk")
    case True
    then have "bounds (row_count self) rowk = Inl (ValueError ''Slice steps not supported.'')"
      by (simp add: bounds_step)
    with True show ?thesis by (simp add: bind_err_def)
  next
    case r: False
    then obtain row1 row2 where br: "bounds (row_count self) rowk = Inr (row1, row2)"
      by (cases "bounds (row_count self) rowk") (auto simp: bounds_step)
    show ?thesis
    proof (cases "has_step colk")
      case True
      then have "bounds (column_count self) colk = Inl (ValueError ''Slice steps not supported.'')"
        by (simp add: bounds_step)
      with True br show ?thesis by (simp add: bind_err_def)
    next
      case c: False
      then obtain col1 col2 where bc: "bounds (column_count self) colk = Inr (col1, col2)"
        by (cases "bounds (column_count self) colk") (auto simp: bounds_step)
      have "getitem st self (KTuple rowk colk) \<noteq> Inl (ValueError ''Slice steps not supported.'')"
        using br bc
        by (auto simp: bind_err_def call2_not_ValueError split: sum.splits)
      with r c show ?thesis by simp
    qed
  qed
qed


theorem slice_step_rejected_witness:
  "getitem (book_state []) (region sheet1 1 1 2 3) (KSlice (Slice (Some 0) (Some 2) (Some 1))) =
     Inl (ValueError ''Slice steps not supported.'') \<and>
   getitem (book_state []) (region sheet1 1 1 2 3) (KSlice (Slice (Some 0) (Some 2) None)) \<noteq>
     Inl (ValueError ''Slice steps not supported.'') \<and>
   getitem (book_state []) (region sheet1 1 1 2 3)
       (KTuple (Sl (Slice None None (Some 1))) (Idx 0)) =
     Inl (ValueError ''Slice steps not supported.'') \<and>
   getitem (book_state []) (region sheet1 1 1 2 3)
       (KTuple (Idx 0) (Sl (Slice (Some 0) (Some 2) (Some 1)))) =
     Inl (ValueError ''Slice steps not supported.'') \<and>
   getitem (book_state []) (region sheet1 1 1 2 3)
       (KTuple (Sl (Slice None None None)) (Sl (Slice (Some 0) (Some 2) None))) \<noteq>
     Inl (ValueError ''Slice steps not supported.'')"
  using slice_step_rejected [of "book_state []" "region sheet1 1 1 2 3"
          "Slice (Some 0) (Some 2) (Some 1)" "Sl (Slice None None (Some 1))" "Idx 0"]
        slice_step_rejected [of "book_state []" "region sheet1 1 1 2 3"
          "Slice (Some 0) (Some 2) None" "Idx 0" "Sl (Slice (Some 0) (Some 2) (Some 1))"]
        slice_step_rejected [of "book_state []" "region sheet1 1 1 2 3"
          "Slice (Some 0) (Some 2) None" "Sl (Slice None None None)"
          "Sl (Slice (Some 0) (Some 2) None)"]
  by (simp del: getitem.simps add: has_step_def)


section \<open>Zero coordinates in the tuple forms\<close>

lemma spec_of_zero:
  assumes "args \<noteq> []" and "is_tuple (last args)"
    and "zero_in (last args) \<or> (length args > 1 \<and> is_tuple (args ! (length args - 2)) \<and> zero_in (args ! (length args - 2)))"
  shows "spec_of args = Inl (IndexError ''Attempted to access 0-based Range. xlwings/Excel Ranges are 1-based.'')"
  using assms by (auto simp: spec_of_def Let_def)

lemma Range_init_spec_error:
  assumes "0 < length args" and "length args \<le> 3" and "is_tuple (last args)"
    and "spec_of args = Inl e"
  shows "Range_init st args None options = Inl e"
proof -
  have l: "args ! (length args - 1) = last args" using assms(1) by (simp add: last_conv_nth)
  have a: "\<not> (length args = 2 \<and> is_Range (args ! 0) \<and> is_Range (args ! 1))"
    using assms(3) l by (auto simp: is_Range_def is_tuple_def split: arg.splits)
  have b: "\<not> (length args = 1 \<and> is_string (args ! 0))"
    using assms(3) l by (auto simp: is_string_def is_tuple_def split: arg.splits)
  have c: "0 < length args \<and> length args \<le> 3" using assms by simp
  show ?thesis
    unfolding Range_init_def option.case if_not_P [OF a] if_not_P [OF b] if_P [OF c] assms(4)
    by (simp add: bind_err_def)
qed

text \<open>
  C2. A Range call in a tuple form, that is one or two (row, column) pairs, alone or
  after one more argument (the sheet), raises \<open>IndexError\<close> "Attempted to access
  0-based Range" as soon as a row or a column of one of the pairs is 0. The result is
  the exception: no Range is returned.
\<close>

theorem Range_init_zero_based:
  assumes "length pre \<le> 1" and "ts \<noteq> []" and "length ts \<le> 2"
    and "\<exists>(r, c) \<in> set ts. r = 0 \<or> c = 0"
  shows "Range_init st (pre @ tuple_args ts) None options =
           Inl (IndexError ''Attempted to access 0-based Range. xlwings/Excel Ranges are 1-based.'')"
proof -
  let ?args = "pre @ tuple_args ts"
  obtain t1 t2 where ts: "ts = [t1] \<or> ts = [t1, t2]"
    using assms(2,3) by (cases ts; cases "tl ts") auto
  have len: "0 < length ?args" "length ?args \<le> 3"
    using assms ts by (auto simp: tuple_args_def)
  have lt: "is_tuple (last ?args)"
    using ts by (auto simp: tuple_args_def is_tuple_def split: prod.splits)
  have z: "zero_in (last ?args) \<or> (length ?args > 1 \<and> is_tuple (?args ! (length ?args - 2)) \<and>
             zero_in (?args ! (length ?args - 2)))"
    using ts assms(4)
    by (auto simp: tuple_args_def is_tuple_def zero_in_def nth_append split: prod.splits)
  have "?args \<noteq> []" using len by auto
  from spec_of_zero [OF this lt z] Range_init_spec_error [OF len lt]
  show ?thesis by simp
qed

theorem Range_init_zero_based_witness:
  "Range_init (book_state []) [ATuple [0, 1]] None Map.empty =
     Inl (IndexError ''Attempted to access 0-based Range. xlwings/Excel Ranges are 1-based.'') \<and>
   Range_init (book_state []) [AStr ''Sheet1'', ATuple [1, 1], ATuple [3, 0]] None Map.empty =
     Inl (IndexError ''Attempted to access 0-based Range. xlwings/Excel Ranges are 1-based.'')"
  using Range_init_zero_based [of "[]" "[(0, 1)]" "book_state []" Map.empty]
        Range_init_zero_based [of "[AStr ''Sheet1'']" "[(1, 1), (3, 0)]" "book_state []" Map.empty]
  by (simp add: tuple_args_def)

text \<open>Pairs without a zero do construct: the corners (1, 1) and (3, 3) give A1:C3.\<close>

lemma Range_init_corners_example: "Range_init (book_state []) [AStr ''Sheet1'', ATuple [1, 1], ATuple [3, 3]] None Map.empty =
   Inr (region sheet1 1 1 3 3)"
  by (simp add: Range_init_def is_Range_def is_string_def is_tuple_def spec_of_def zero_in_def
      bind_err_def Sheet_init_def book_state_def cell_def worksheet_range_def region_def Let_def)


section \<open>Region expansion\<close>

text \<open>
  The scan ends on the last cell of the contiguous non-empty run: it does not go
  backwards, every cell it passes is non-empty, and the cell after its end is empty.
\<close>

lemma end_down_ge: "r \<le> end_down st sh r c"
proof (induction st sh r c rule: end_down.induct)
  case (1 st sh r c)
  show ?case
  proof (cases "is_empty (raw_value st (region sh (r + 1) c 1 1))")
    case True
    then show ?thesis by (simp add: end_down.simps [of st sh r c])
  next
    case False
    with 1 have "r + 1 \<le> end_down st sh (r + 1) c" by simp
    with False show ?thesis by (simp add: end_down.simps [of st sh r c])
  qed
qed

lemma end_right_ge: "c \<le> end_right st sh r c"
proof (induction st sh r c rule: end_right.induct)
  case (1 st sh r c)
  show ?case
  proof (cases "is_empty (raw_value st (region sh r (c + 1) 1 1))")
    case True
    then show ?thesis by (simp add: end_right.simps [of st sh r c])
  next
    case False
    with 1 have "c + 1 \<le> end_right st sh r (c + 1)" by simp
    with False show ?thesis by (simp add: end_right.simps [of st sh r c])
  qed
qed

lemma end_down_stops: "empty_at st sh (end_down st sh r c + 1) c"
proof (induction st sh r c rule: end_down.induct)
  case (1 st sh r c)
  show ?case
  proof (cases "is_empty (raw_value st (region sh (r + 1) c 1 1))")
    case True
    then show ?thesis by (simp add: end_down.simps [of st sh r c] empty_at_def)
  next
    case False
    with 1 show ?thesis by (simp add: end_down.simps [of st sh r c])
  qed
qed

lemma end_down_contiguous: "r < k \<Longrightarrow> k \<le> end_down st sh r c \<Longrightarrow> \<not> empty_at st sh k c"
proof (induction st sh r c rule: end_down.induct)
  case (1 st sh r c)
  show ?case
  proof (cases "is_empty (raw_value st (region sh (r + 1) c 1 1))")
    case True
    with 1(2,3) show ?thesis by (simp add: end_down.simps [of st sh r c])
  next
    case False
    then have e: "end_down st sh r c = end_down st sh (r + 1) c"
      by (simp add: end_down.simps [of st sh r c])
    show ?thesis
    proof (cases "k = r + 1")
      case True
      with False show ?thesis by (simp add: empty_at_def)
    next
      case ne: False
      with 1(2) have "r + 1 < k" by simp
      with 1(1) [OF False] 1(3) e show ?thesis by simp
    qed
  qed
qed

lemma end_right_stops: "empty_at st sh r (end_right st sh r c + 1)"
proof (induction st sh r c rule: end_right.induct)
  case (1 st sh r c)
  show ?case
  proof (cases "is_empty (raw_value st (region sh r (c + 1) 1 1))")
    case True
    then show ?thesis by (simp add: end_right.simps [of st sh r c] empty_at_def)
  next
    case False
    with 1 show ?thesis by (simp add: end_right.simps [of st sh r c])
  qed
qed

lemma end_right_contiguous: "c < k \<Longrightarrow> k \<le> end_right st sh r c \<Longrightarrow> \<not> empty_at st sh r k"
proof (induction st sh r c rule: end_right.induct)
  case (1 st sh r c)
  show ?case
  proof (cases "is_empty (raw_value st (region sh r (c + 1) 1 1))")
    case True
    with 1(2,3) show ?thesis by (simp add: end_right.simps [of st sh r c])
  next
    case False
    then have e: "end_right st sh r c = end_right st sh r (c + 1)"
      by (simp add: end_right.simps [of st sh r c])
    show ?thesis
    proof (cases "k = c + 1")
      case True
      with False show ?thesis by (simp add: empty_at_def)
    next
      case ne: False
      with 1(2) have "c + 1 < k" by simp
      with 1(1) [OF False] 1(3) e show ?thesis by simp
    qed
  qed
qed

lemma vertical_growth:
  assumes "valid self"
  shows "vertical st self =
     Inr (region (worksheet self) (row self) (column self)
            (growth (\<lambda>r. empty_at st (worksheet self) r (column self))
                    (\<lambda>r. end_down st (worksheet self) r (column self)) (row self))
            (column_count self))"
proof -
  let ?sh = "worksheet self" and ?r = "row self" and ?c = "column self"
  have v: "1 \<le> ?r" "1 \<le> ?c" "1 \<le> column_count self" using assms by (simp_all add: valid_def)
  have ge: "?r + 1 \<le> end_down st ?sh (?r + 1) ?c" by (rule end_down_ge)
  have c21: "call2 self 2 1 = Inr (region ?sh (?r + 1) ?c 1 1)"
    using v by (simp add: call2_ok)
  have c31: "call2 self 3 1 = Inr (region ?sh (?r + 2) ?c 1 1)"
    using v by (simp add: call2_ok)
  have c11: "call2 self 1 1 = Inr (region ?sh ?r ?c 1 1)"
    using v by (simp add: call2_ok)
  have ck: "call2 self k (column_count self) = Inr (region ?sh (?r + k - 1) (?c + column_count self - 1) 1 1)"
    if "1 \<le> k" for k
    using v that by (simp add: call2_ok)
  show ?thesis
    unfolding vertical_def c21 c31 c11 bind_Inr
    using v ge
    by (simp add: ck Range_span span_cells growth_def empty_at_def range_end_def cell_ok Let_def
          min_def max_def)
qed


lemma horizontal_growth:
  assumes "valid self"
  shows "horizontal st self =
     Inr (region (worksheet self) (row self) (column self) (row_count self)
            (growth (\<lambda>c. empty_at st (worksheet self) (row self) c)
                    (\<lambda>c. end_right st (worksheet self) (row self) c) (column self)))"
proof -
  let ?sh = "worksheet self" and ?r = "row self" and ?c = "column self"
  have v: "1 \<le> ?r" "1 \<le> ?c" "1 \<le> row_count self" using assms by (simp_all add: valid_def)
  have ge: "?c + 1 \<le> end_right st ?sh ?r (?c + 1)" by (rule end_right_ge)
  have c12: "call2 self 1 2 = Inr (region ?sh ?r (?c + 1) 1 1)"
    using v by (simp add: call2_ok)
  have c13: "call2 self 1 3 = Inr (region ?sh ?r (?c + 2) 1 1)"
    using v by (simp add: call2_ok)
  have c11: "call2 self 1 1 = Inr (region ?sh ?r ?c 1 1)"
    using v by (simp add: call2_ok)
  have ck: "call2 self (row_count self) k = Inr (region ?sh (?r + row_count self - 1) (?c + k - 1) 1 1)"
    if "1 \<le> k" for k
    using v that by (simp add: call2_ok)
  show ?thesis
    unfolding horizontal_def c12 c13 c11 bind_Inr
    using v ge
    by (simp add: ck Range_span span_cells growth_def empty_at_def range_end_def cell_ok Let_def
          min_def max_def)
qed

lemma table_growth:
  assumes "valid self"
  shows "table st self =
     Inr (region (worksheet self) (row self) (column self)
            (growth (\<lambda>r. empty_at st (worksheet self) r (column self))
                    (\<lambda>r. end_down st (worksheet self) r (column self)) (row self))
            (growth (\<lambda>c. empty_at st (worksheet self) (row self) c)
                    (\<lambda>c. end_right st (worksheet self) (row self) c) (column self)))"
proof -
  let ?sh = "worksheet self" and ?r = "row self" and ?c = "column self"
  let ?o = "region ?sh ?r ?c 1 1"
  have v: "1 \<le> ?r" "1 \<le> ?c" using assms by (simp_all add: valid_def)
  have ged: "?r + 1 \<le> end_down st ?sh (?r + 1) ?c" by (rule end_down_ge)
  have ger: "?c + 1 \<le> end_right st ?sh ?r (?c + 1)" by (rule end_right_ge)
  have c11: "call2 self 1 1 = Inr ?o" using v by (simp add: call2_ok)
  have o: "call2 ?o 2 1 = Inr (region ?sh (?r + 1) ?c 1 1)"
          "call2 ?o 3 1 = Inr (region ?sh (?r + 2) ?c 1 1)"
          "call2 ?o 1 2 = Inr (region ?sh ?r (?c + 1) 1 1)"
          "call2 ?o 1 3 = Inr (region ?sh ?r (?c + 2) 1 1)"
    using v by (simp_all add: call2_ok)
  show ?thesis
    unfolding table_def c11 bind_Inr o
    using v ged ger
    by (simp add: Range_span span_cells growth_def empty_at_def range_end_def cell_ok Let_def
          min_def max_def)
qed

lemma growth_pos:
  assumes "\<And>p. p \<le> scan p"
  shows "1 \<le> growth blank scan a"
  using assms [of "a + 1"] by (simp add: growth_def)

text \<open>
  C3. On a well-formed Range, \<open>vertical\<close> keeps the columns and has as many rows as the
  growth rule gives down the first column from the top-left cell; \<open>horizontal\<close> keeps
  the rows and has as many columns as the rule gives along the first row; the rule is
  the two-step lookahead (length 1 when the adjacent cell is blank or an empty string,
  length 2 when the cell two positions out is, else up to the cell that the scan from
  the one-position-out cell reaches). \<open>table\<close> is the rectangle spanning what
  \<open>vertical\<close> and \<open>horizontal\<close> give from the anchor cell.
\<close>

theorem directional_growth:
  assumes "valid self"
  shows "vertical st self =
           Inr (region (worksheet self) (row self) (column self)
                  (growth (\<lambda>r. empty_at st (worksheet self) r (column self))
                          (\<lambda>r. end_down st (worksheet self) r (column self)) (row self))
                  (column_count self)) \<and>
         horizontal st self =
           Inr (region (worksheet self) (row self) (column self) (row_count self)
                  (growth (\<lambda>c. empty_at st (worksheet self) (row self) c)
                          (\<lambda>c. end_right st (worksheet self) (row self) c) (column self))) \<and>
         (\<exists>v h. vertical st (region (worksheet self) (row self) (column self) 1 1) = Inr v \<and>
                horizontal st (region (worksheet self) (row self) (column self) 1 1) = Inr h \<and>
                table st self = Inr (worksheet_range v h))"
proof -
  let ?sh = "worksheet self" and ?r = "row self" and ?c = "column self"
  let ?o = "region ?sh ?r ?c 1 1"
  let ?gv = "growth (\<lambda>r. empty_at st ?sh r ?c) (\<lambda>r. end_down st ?sh r ?c) ?r"
  let ?gh = "growth (\<lambda>c. empty_at st ?sh ?r c) (\<lambda>c. end_right st ?sh ?r c) ?c"
  have vo: "valid ?o" using assms by (simp add: valid_def)
  have gv: "1 \<le> ?gv" by (rule growth_pos) (rule end_down_ge)
  have gh: "1 \<le> ?gh" by (rule growth_pos) (rule end_right_ge)
  have V: "vertical st ?o = Inr (region ?sh ?r ?c ?gv 1)"
    using vertical_growth [OF vo, of st] by simp
  have H: "horizontal st ?o = Inr (region ?sh ?r ?c 1 ?gh)"
    using horizontal_growth [OF vo, of st] by simp
  have S: "worksheet_range (region ?sh ?r ?c ?gv 1) (region ?sh ?r ?c 1 ?gh) = region ?sh ?r ?c ?gv ?gh"
    using gv gh by (simp add: worksheet_range_def Let_def min_def max_def)
  have T: "table st self = Inr (worksheet_range (region ?sh ?r ?c ?gv 1) (region ?sh ?r ?c 1 ?gh))"
    unfolding S by (rule table_growth [OF assms])
  from V H T vertical_growth [OF assms, of st] horizontal_growth [OF assms, of st]
  show ?thesis by blast
qed

text \<open>
  C8. On a well-formed Range whose anchor (top-left) cell has an empty cell below it
  and an empty cell to its right, and so too on a sheet without any value, \<open>table\<close>
  raises nothing and returns the one-cell region of the anchor.
\<close>

theorem table_single_cell:
  assumes "valid self"
    and "(empty_at st (worksheet self) (row self + 1) (column self) \<and>
          empty_at st (worksheet self) (row self) (column self + 1)) \<or>
         (\<forall>r c. is_empty (cells st (worksheet self) r c))"
  shows "table st self = Inr (region (worksheet self) (row self) (column self) 1 1)"
proof -
  have "empty_at st (worksheet self) (row self + 1) (column self) \<and>
        empty_at st (worksheet self) (row self) (column self + 1)"
    using assms(2) by (auto simp: empty_at_def raw_value_def is_empty_def)
  then show ?thesis
    by (simp add: table_growth [OF assms(1)] growth_def)
qed

theorem directional_growth_witness:
  "vertical (book_state [[PyInt 1, PyInt 2], [PyInt 3, PyInt 4]]) (region sheet1 1 1 1 1) =
     Inr (region sheet1 1 1 2 1) \<and>
   horizontal (book_state [[PyInt 1, PyInt 2], [PyInt 3, PyInt 4]]) (region sheet1 1 1 1 1) =
     Inr (region sheet1 1 1 1 2) \<and>
   table (book_state [[PyInt 1, PyInt 2], [PyInt 3, PyInt 4]]) (region sheet1 1 1 1 1) =
     Inr (region sheet1 1 1 2 2) \<and>
   vertical (book_state (block 5 4)) (region sheet1 1 1 1 1) = Inr (region sheet1 1 1 5 1) \<and>
   horizontal (book_state (block 5 4)) (region sheet1 1 1 1 1) = Inr (region sheet1 1 1 1 4) \<and>
   table (book_state (block 5 4)) (region sheet1 1 1 1 1) = Inr (region sheet1 1 1 5 4)"
proof -
  let ?a = "region sheet1 1 1 1 1"
  let ?s = "book_state [[PyInt 1, PyInt 2], [PyInt 3, PyInt 4]]"
  let ?b = "book_state (block 5 4)"
  have v: "valid ?a" by (simp add: valid_def)
  have g: "growth (\<lambda>r. empty_at ?s sheet1 r 1) (\<lambda>r. end_down ?s sheet1 r 1) 1 = 2"
          "growth (\<lambda>c. empty_at ?s sheet1 1 c) (\<lambda>c. end_right ?s sheet1 1 c) 1 = 2"
          "growth (\<lambda>r. empty_at ?b sheet1 r 1) (\<lambda>r. end_down ?b sheet1 r 1) 1 = 5"
          "growth (\<lambda>c. empty_at ?b sheet1 1 c) (\<lambda>c. end_right ?b sheet1 1 c) 1 = 4"
    by code_simp+
  show ?thesis
    using directional_growth [OF v, of ?s] directional_growth [OF v, of ?b]
    by (auto simp: g worksheet_range_def Let_def)
qed

theorem table_single_cell_witness:
  "table (book_state []) (region sheet1 2 2 1 1) = Inr (region sheet1 2 2 1 1) \<and>
   table (book_state [[PyInt 1, PyNone], [PyStr [], PyInt 5]]) (region sheet1 1 1 1 1) =
     Inr (region sheet1 1 1 1 1)"
proof -
  let ?s = "book_state [[PyInt 1, PyNone], [PyStr [], PyInt 5]]"
  have v: "valid (region sheet1 2 2 1 1)" "valid (region sheet1 1 1 1 1)"
    by (simp_all add: valid_def)
  have e: "\<forall>r c. is_empty (cells (book_state []) sheet1 r c)"
    by (auto simp: book_state_def grid_def is_empty_def)
  have n: "empty_at ?s sheet1 (1 + 1) 1" "empty_at ?s sheet1 1 (1 + 1)"
    by code_simp+
  show ?thesis
    using table_single_cell [OF v(1), of "book_state []"] table_single_cell [OF v(2), of ?s] e n
    by simp
qed


section \<open>Linear slices whose stop precedes their start\<close>


text \<open>
  Whatever a linear slice returns is the span of two cells, so it has at least one
  element: there is no empty Range.
\<close>

lemma call1_cell:
  assumes "call1 self i = Inr a"
  obtains r c where "a = region (worksheet self) r c 1 1"
  using assms by (auto simp: call1_def cell_def split: if_splits)

lemma getitem_slice_len:
  assumes "getitem st self (KSlice k) = Inr r"
  shows "1 \<le> len r"
proof -
  have "step k = None" using assms by (cases "step k") auto
  with assms obtain m n a b where ab: "call1 self m = Inr a" "call1 self n = Inr b"
      and r: "Range_init st [ARange a, ARange b] None Map.empty = Inr r"
    by (simp add: Let_def split del: if_split) (elim bind_err_InrE, blast)
  from ab obtain r1 c1 r2 c2 where
    "a = region (worksheet self) r1 c1 1 1" "b = region (worksheet self) r2 c2 1 1"
    by (elim call1_cell) blast
  with r have "r = worksheet_range (region (worksheet self) r1 c1 1 1) (region (worksheet self) r2 c2 1 1)"
    by (simp add: Range_span)
  then show ?thesis by (simp only: len_span_cells)
qed




section \<open>2-D element access\<close>

text \<open>
  C6 on the code. On B2:C3 the 2-D access \<open>at(-1, -1)\<close> is \<^verbatim>\<open>self(0, 0)\<close>, the cell A1
  above and left of the Range, not its last cell C3 (which \<open>at(1, 1)\<close> and the linear
  \<open>at(-1)\<close> give); and \<open>at(5, 5)\<close> is the cell G7, far outside of the Range, where the
  linear \<open>at(5)\<close> raises \<open>IndexError\<close>: the tuple branch neither resolves negative
  indices nor checks bounds.
\<close>

theorem getitem_2d_unchecked:
  "getitem (book_state []) (region sheet1 2 2 2 2) (KTuple (Idx (- 1)) (Idx (- 1))) =
     Inr (region sheet1 1 1 1 1) \<and>
   getitem (book_state []) (region sheet1 2 2 2 2) (KTuple (Idx 1) (Idx 1)) =
     Inr (region sheet1 3 3 1 1) \<and>
   getitem (book_state []) (region sheet1 2 2 2 2) (KTuple (Idx 5) (Idx 5)) =
     Inr (region sheet1 7 7 1 1) \<and>
   getitem (book_state []) (region sheet1 2 2 2 2) (KInt (- 1)) = Inr (region sheet1 3 3 1 1) \<and>
   getitem (book_state []) (region sheet1 2 2 2 2) (KInt 5) =
     Inl (IndexError ''Index 5 out of range (4 elements).'')"
proof -
  have s: "str_int 5 = ''5''" "str_int 4 = ''4''" by code_simp+
  show ?thesis
    by (simp add: bounds_def call2_def call1_def cell_def len_def Let_def out_of_range_def s)
qed


section \<open>The options of result Ranges\<close>

text \<open>
  \<^verbatim>\<open>r.options(**d)\<close> gives the options \<open>d\<close>, with \<^verbatim>\<open>convert\<close> set to \<^verbatim>\<open>None\<close> when
  \<open>d\<close> has no such entry; so \<open>resize\<close> and \<open>offset\<close> keep a bag that has the entry.
  A linear slice returns \<^verbatim>\<open>Range(a, b)\<close>, which has no options.
\<close>

lemma options_from_eq:
  "options_from st r d =
     Inr (r\<lparr>r_options := d(''convert'' \<mapsto> (case d ''convert'' of None \<Rightarrow> PyNone | Some v \<Rightarrow> v))\<rparr>)"
  by (simp add: options_from_def Range_options_def Range_init_def)

lemma options_from_options:
  "options_from st r d = Inr r' \<Longrightarrow>
   r_options r' = d(''convert'' \<mapsto> (case d ''convert'' of None \<Rightarrow> PyNone | Some v \<Rightarrow> v))"
  by (auto simp: options_from_eq)

lemma options_from_same:
  assumes "options_from st r d = Inr r'" and "''convert'' \<in> dom d"
  shows "r_options r' = d"
proof -
  from assms(2) obtain v where "d ''convert'' = Some v" by auto
  with options_from_options [OF assms(1)] show ?thesis by (auto simp: fun_upd_idem)
qed

lemma resize_options:
  assumes "resize st self rs cs = Inr r'" and "''convert'' \<in> dom (r_options self)"
  shows "r_options r' = r_options self"
  using assms
  by (auto simp: resize_def bind_err_def split: sum.splits intro: options_from_same)

lemma offset_options:
  assumes "offset st self ro co = Inr r'" and "''convert'' \<in> dom (r_options self)"
  shows "r_options r' = r_options self"
  using assms
  by (auto simp: offset_def bind_err_def split: sum.splits intro: options_from_same)

lemma getitem_slice_options:
  assumes "getitem st self (KSlice k) = Inr r"
  shows "r_options r = Map.empty"
proof -
  have "step k = None" using assms by (cases "step k") auto
  with assms obtain a b where "Range_init st [ARange a, ARange b] None Map.empty = Inr r"
    by (simp add: Let_def split del: if_split) (elim bind_err_InrE, blast)
  then show ?thesis by (auto simp: Range_span worksheet_range_def Let_def)
qed

text \<open>
  C7 on the code. A Range with the options \<^verbatim>\<open>{'convert': None, 'ndim': 2}\<close> is sliced:
  the result has no options, where \<open>resize\<close> passes the options on.
\<close>

theorem getitem_drops_options:
  "getitem (book_state [])
      (with_options (region sheet1 1 1 5 1) [''convert'' \<mapsto> PyNone, ''ndim'' \<mapsto> PyInt 2])
      (KSlice (Slice (Some 0) (Some 2) None)) =
     Inr (with_options (region sheet1 1 1 2 1) Map.empty) \<and>
   resize (book_state [])
      (with_options (region sheet1 1 1 5 1) [''convert'' \<mapsto> PyNone, ''ndim'' \<mapsto> PyInt 2])
      (Some 2) None =
     Inr (with_options (region sheet1 1 1 2 1) [''convert'' \<mapsto> PyNone, ''ndim'' \<mapsto> PyInt 2])"
  by (simp add: with_options_def len_def Let_def call1_def call2_def cell_def Range_span span_cells
        resize_def options_from_eq region_def worksheet_range_def fun_upd_twist)


section \<open>Failures of document resolution\<close>

text \<open>
  C1 on the code. No instance runs and the identifier is a file on disk: no open
  document matches, and \<^verbatim>\<open>active.app.workbooks\<close> raises \<open>AttributeError\<close> on
  \<^verbatim>\<open>None\<close>; the file is not opened. The branch without identifier starts an
  instance in that state.
\<close>

theorem Workbook_init_no_instance:
  "candidates [] (lower ''C:/data/Report.xlsx'') = [] \<and>
   Workbook_init [] (\<lambda>p. lower p = ''c:/data/report.xlsx'') (Some ''C:/data/Report.xlsx'') None =
     Inl (AttributeError ''NoneType object has no attribute workbooks'') \<and>
   Workbook_init [] (\<lambda>p. lower p = ''c:/data/report.xlsx'') None None = Inr NewApplication"
  by code_simp


text \<open>
  C9, as stated, fails: the same identifier matched by two and by three open documents
  raises the same exception, so the error does not tell the number of matches.
\<close>

theorem Workbook_init_error_counterexample:
  "length (candidates two_instances (lower ''Book1'')) = 2 \<and>
   length (candidates three_instances (lower ''Book1'')) = 3 \<and>
   Workbook_init two_instances (\<lambda>p. False) (Some ''Book1'') None =
     Inl (Exception (''Workbook '' @ quoted ''book1'' @ '' is open in more than one Excel instance.'')) \<and>
   Workbook_init three_instances (\<lambda>p. False) (Some ''Book1'') None =
     Inl (Exception (''Workbook '' @ quoted ''book1'' @ '' is open in more than one Excel instance.''))"
  by code_simp

text \<open>
  C9, amended. For a non-empty identifier, the failure for no match and no file on disk
  and the failure for more than one match both carry a message that quotes the
  identifier in lower case; the message for more than one match is otherwise fixed.
\<close>

theorem Workbook_init_error_names:
  assumes "ident \<noteq> []"
  shows "(candidates apps (lower ident) = [] \<and> \<not> isfile (lower ident) \<longrightarrow>
            Workbook_init apps isfile (Some ident) None =
              Inl (Exception (''Could not connect to workbook '' @ quoted (lower ident)))) \<and>
         (1 < length (candidates apps (lower ident)) \<longrightarrow>
            Workbook_init apps isfile (Some ident) None =
              Inl (Exception (''Workbook '' @ quoted (lower ident) @
                              '' is open in more than one Excel instance.'')))"
  using Workbook_init_not_found [OF assms] Workbook_init_ambiguous [OF assms] by blast

theorem Workbook_init_error_names_witness:
  "Workbook_init two_instances (\<lambda>p. False) (Some ''Book2'') None =
     Inl (Exception (''Could not connect to workbook '' @ quoted ''book2'')) \<and>
   Workbook_init two_instances (\<lambda>p. False) (Some ''Book1'') None =
     Inl (Exception (''Workbook '' @ quoted ''book1'' @ '' is open in more than one Excel instance.''))"
proof -
  have l: "lower ''Book2'' = ''book2''" "lower ''Book1'' = ''book1''" by code_simp+
  have c: "candidates two_instances ''book2'' = []" "1 < length (candidates two_instances ''book1'')"
    by code_simp+
  have n: "''Book2'' \<noteq> []" "''Book1'' \<noteq> []" by simp_all
  have a: "Workbook_init two_instances (\<lambda>p. False) (Some ''Book2'') None =
             Inl (Exception (''Could not connect to workbook '' @ quoted ''book2''))"
    using Workbook_init_error_names [OF n(1), of two_instances "\<lambda>p. False"] c(1)
    unfolding l by blast
  have b: "Workbook_init two_instances (\<lambda>p. False) (Some ''Book1'') None =
             Inl (Exception (''Workbook '' @ quoted ''book1'' @
                             '' is open in more than one Excel instance.''))"
    using Workbook_init_error_names [OF n(2), of two_instances "\<lambda>p. False"] c(2)
    unfolding l by blast
  from a b show ?thesis by blast
qed

end
